theory Spec2Isabelle
  imports Main
begin

section \<open>Errors and machine arithmetic\<close>

text \<open>
  Every \<^verbatim>\<open>throw std::runtime_error(...)\<close> of \<^verbatim>\<open>structure.cpp\<close> and
  \<^verbatim>\<open>executor.cpp\<close> is one constructor, named after its message. The last four
  are not thrown by the two files themselves: three are the failures of the
  arbitrary-precision type \<^verbatim>\<open>Id\<close>, and \<open>UndefinedBehaviour\<close> marks the places
  where C++ gives the expression no meaning (a \<^verbatim>\<open>size_t\<close> division by zero, a
  shift by 64 or more, the conversion of \<^verbatim>\<open>std::log2(0)\<close> to \<^verbatim>\<open>size_t\<close>).
\<close>

datatype error =
    BaseDepthTooSmall
  | PointsPerChunkNotSpecified
  | InvalidChunkSpecification
  | InvalidLogNArg nat
  | InvalidNullDepthForSubset
  | InvalidSubsetSplit
  | InvalidSubsetIdentifier
  | InvalidChunkSizeForSubset
  | CantSplitOctree
  | InvalidMagnificationSubset
  | NoDefaultSRS
  | IdUnderflow
  | IdDivideByZero
  | IdOverflow
  | UndefinedBehaviour

text \<open>Sequencing of fallible steps: the first error ends the computation, as a
  C++ exception does.\<close>

definition bindE :: "error + 'a \<Rightarrow> ('a \<Rightarrow> error + 'b) \<Rightarrow> error + 'b" where
  "bindE m f = (case m of Inl e \<Rightarrow> Inl e | Inr x \<Rightarrow> f x)"

text \<open>A \<^verbatim>\<open>std::size_t\<close> is a natural number below \<open>2 ^ 64\<close>; \<open>sz\<close> is the
  wrap-around of an unsigned 64-bit result.\<close>

definition sz :: "nat \<Rightarrow> nat" where
  "sz x = x mod 2 ^ 64"

definition sz_sub :: "nat \<Rightarrow> nat \<Rightarrow> nat" where
  "sz_sub a b = sz (a + 2 ^ 64 - sz b)"

definition sz_div :: "nat \<Rightarrow> nat \<Rightarrow> error + nat" where
  "sz_div a b = (if b = 0 then Inl UndefinedBehaviour else Inr (a div b))"

definition sz_mod :: "nat \<Rightarrow> nat \<Rightarrow> error + nat" where
  "sz_mod a b = (if b = 0 then Inl UndefinedBehaviour else Inr (a mod b))"

text \<open>\<^verbatim>\<open>1ULL << n\<close>.\<close>

definition shl1 :: "nat \<Rightarrow> error + nat" where
  "shl1 n = (if n < 64 then Inr (2 ^ n) else Inl UndefinedBehaviour)"

subsection \<open>The index type\<close>

text \<open>
  Modelled from the spec: \<^verbatim>\<open>Id\<close>, the arbitrary-precision unsigned integer whose
  header is not among the sources. Section 4.1 gives it \<open>+\<close>, \<open>-\<close>, \<open>*\<close>, \<open>/\<close>,
  \<open>%\<close>, div-mod and left shift "over non-negative integers of unbounded
  magnitude", shift by \<open>n\<close> being multiplication by \<open>2 ^ n\<close>, and a narrowing
  conversion that is a fatal contract violation on a value that does not fit
  the native integer. An \<^verbatim>\<open>Id\<close> is a \<open>nat\<close>; addition, multiplication and shift
  are those of \<open>nat\<close>. A difference below zero and a quotient by zero are no
  values of the type, so the model ends there with an error.
\<close>

type_synonym Id = nat

definition id_sub :: "Id \<Rightarrow> Id \<Rightarrow> error + Id" where
  "id_sub a b = (if a < b then Inl IdUnderflow else Inr (a - b))"

definition id_div :: "Id \<Rightarrow> Id \<Rightarrow> error + Id" where
  "id_div a b = (if b = 0 then Inl IdDivideByZero else Inr (a div b))"

definition id_mod :: "Id \<Rightarrow> Id \<Rightarrow> error + Id" where
  "id_mod a b = (if b = 0 then Inl IdDivideByZero else Inr (a mod b))"

definition divMod :: "Id \<Rightarrow> Id \<Rightarrow> error + (Id \<times> Id)" where
  "divMod a b = (if b = 0 then Inl IdDivideByZero else Inr (a div b, a mod b))"

definition getSimple :: "Id \<Rightarrow> error + nat" where
  "getSimple v = (if v < 2 ^ 64 then Inr v else Inl IdOverflow)"

section \<open>Level and depth arithmetic\<close>

text \<open>
  \<^verbatim>\<open>std::size_t log2(std::size_t val) { return std::log2(val); }\<close>

  The source converts \<open>val\<close> to a double, takes the floating-point logarithm
  and truncates it. The model takes IEEE-754 doubles, the conversion rounding
  to nearest, and \<^verbatim>\<open>std::log2\<close> returning the double nearest to the logarithm.
  The result is then the exact floor of the logarithm, \<open>floor_log2 val\<close>,
  unless the logarithm lies so close under the next integer that its nearest
  double is that integer. The doubles between 32 and 64 are \<open>2^-47\<close> apart, so for
  \<open>k = floor_log2 val\<close> this happens when the logarithm is at least
  \<open>k + 1 - 2^-48\<close>, which is when \<open>val\<close> is within \<open>ln 2 * 2^(k - 47)\<close> of
  \<open>2^(k + 1)\<close>: within 1, 2, 5, 11, 22 for \<open>k\<close> from 48 to 52, and never for a
  smaller \<open>k\<close>. From \<open>k = 53\<close> on the conversion to double first rounds \<open>val\<close>
  to a multiple of \<open>2^(k - 52)\<close>, ties to even, and 22 such steps under
  \<open>2^(k + 1)\<close> are reached from every \<open>val\<close> within \<open>45 * 2^(k - 53)\<close> of it.
  \<open>log2_margin k\<close> is that distance. So \<open>2^49 - 1\<close> gives 49 and \<open>2^50 - 1\<close>
  gives 50, where the floor is one less, while every power of two and every
  argument below \<open>2^49 - 1\<close> gives the floor.

  At 0 the logarithm is minus infinity and its conversion is undefined. The
  same function stands for the logarithm that \<open>calcDepth\<close> takes of an \<^verbatim>\<open>Id\<close>;
  beyond 64 bits, where the header that converts an \<^verbatim>\<open>Id\<close> is not among the
  sources, it is the floor.
\<close>

fun floor_log2 :: "nat \<Rightarrow> nat" where
  "floor_log2 n = (if n < 2 then 0 else Suc (floor_log2 (n div 2)))"

declare floor_log2.simps [simp del]

definition log2_margin :: "nat \<Rightarrow> nat" where
  "log2_margin k =
     (if k < 48 \<or> 63 < k then 0
      else if k < 53 then [1, 2, 5, 11, 22] ! (k - 48)
      else 45 * 2 ^ (k - 53))"

definition log2 :: "nat \<Rightarrow> error + nat" where
  "log2 val =
     (if val = 0 then Inl UndefinedBehaviour
      else if 2 ^ (floor_log2 val + 1) - val \<le> log2_margin (floor_log2 val)
        then Inr (floor_log2 val + 1)
      else Inr (floor_log2 val))"

text \<open>\<^verbatim>\<open>return Id(1) << (exp * baseLog2);\<close> The product is a \<^verbatim>\<open>size_t\<close>.\<close>

definition binaryPow :: "nat \<Rightarrow> nat \<Rightarrow> Id" where
  "binaryPow baseLog2 exp = 2 ^ sz (exp * baseLog2)"

text \<open>\<^verbatim>\<open>return binaryPow(dimensions, depth);\<close>\<close>

definition pointsAtDepth :: "nat \<Rightarrow> nat \<Rightarrow> Id" where
  "pointsAtDepth dimensions depth = binaryPow dimensions depth"

text \<open>\<^verbatim>\<open>return (binaryPow(dimensions, depth) - 1) / ((1ULL << dimensions) - 1);\<close>\<close>

definition calcLevelIndex :: "nat \<Rightarrow> nat \<Rightarrow> error + Id" where
  "calcLevelIndex dimensions depth =
     bindE (id_sub (binaryPow dimensions depth) 1) (\<lambda>num.
     bindE (shl1 dimensions) (\<lambda>f.
     id_div num (sz_sub f 1)))"

text \<open>\<^verbatim>\<open>return log2(index * (factor - 1) + 1) / log2(factor);\<close>\<close>

definition calcDepth :: "nat \<Rightarrow> Id \<Rightarrow> error + nat" where
  "calcDepth factor index =
     bindE (log2 (index * sz_sub factor 1 + 1)) (\<lambda>a.
     bindE (log2 factor) (\<lambda>b.
     sz_div a b))"

text \<open>
  \<^verbatim>\<open>if (n != 4 && n != 8) throw std::runtime_error("Invalid logN arg: " + ...);\<close>
  \<^verbatim>\<open>return log2(val) / log2(n);\<close>
\<close>

definition logN :: "nat \<Rightarrow> nat \<Rightarrow> error + nat" where
  "logN val n =
     (if n \<noteq> 4 \<and> n \<noteq> 8 then Inl (InvalidLogNArg n)
      else bindE (log2 val) (\<lambda>a. bindE (log2 n) (\<lambda>b. sz_div a b)))"

text \<open>
  \<^verbatim>\<open>return (1ULL << logN(val, n) * log2(n)) == val;\<close>

  The product binds tighter than the shift. The result type is \<^verbatim>\<open>std::size_t\<close>:
  1 for true, 0 for false.
\<close>

definition isPerfectLogN :: "nat \<Rightarrow> nat \<Rightarrow> error + nat" where
  "isPerfectLogN val n =
     bindE (logN val n) (\<lambda>l.
     bindE (log2 n) (\<lambda>b.
     bindE (shl1 (sz (l * b))) (\<lambda>p.
     Inr (if p = val then 1 else 0))))"

section \<open>Structure\<close>

text \<open>
  The fields of \<^verbatim>\<open>Structure\<close>, in the order of the constructors' initialiser
  lists, followed by the ones that only \<open>loadIndexValues\<close> assigns. Depths,
  counts and the subset pair are \<^verbatim>\<open>std::size_t\<close>, the indices are \<^verbatim>\<open>Id\<close>.
\<close>

record Structure =
  m_nullDepthBegin :: nat
  m_nullDepthEnd :: nat
  m_baseDepthBegin :: nat
  m_baseDepthEnd :: nat
  m_coldDepthBegin :: nat
  m_coldDepthEnd :: nat
  m_sparseDepthBegin :: nat
  m_sparseIndexBegin :: Id
  m_chunkPoints :: nat
  m_dynamicChunks :: bool
  m_dimensions :: nat
  m_factor :: nat
  m_numPointsHint :: nat
  m_subset :: "nat \<times> nat"
  m_nominalChunkDepth :: nat
  m_nominalChunkIndex :: nat
  m_nullIndexBegin :: Id
  m_nullIndexEnd :: Id
  m_baseIndexBegin :: Id
  m_baseIndexEnd :: Id
  m_coldIndexBegin :: Id
  m_coldIndexEnd :: Id

text \<open>
  Modelled from the spec: the inline predicates of \<^verbatim>\<open>structure.hpp\<close>, which is
  not among the sources. Section 3 reads "\<^verbatim>\<open>hasCold()\<close> (coldDepthEnd >
  baseDepthEnd)", and has the dimensions select a quadtree (2) or an octree (3).
  Sparse tiering is what a point-count hint enables (section 4.3 (e)): without
  one, \<open>m_sparseIndexBegin\<close> keeps the 0 of the initialiser list, and with one it
  is the level index of a depth of at least 1.
\<close>

definition hasCold :: "Structure \<Rightarrow> bool" where
  "hasCold s \<longleftrightarrow> m_baseDepthEnd s < m_coldDepthEnd s"

definition hasSparse :: "Structure \<Rightarrow> bool" where
  "hasSparse s \<longleftrightarrow> m_sparseIndexBegin s \<noteq> 0"

definition is3d :: "Structure \<Rightarrow> bool" where
  "is3d s \<longleftrightarrow> m_dimensions s = 3"

text \<open>
  The body shared by the three constructors, \<open>loadIndexValues\<close>, with its last two
  blocks as definitions of their own: the sparse boundary
  (\<^verbatim>\<open>if (m_numPointsHint) { ... } else { ... }\<close>) and the checks of a requested
  subset (\<^verbatim>\<open>if (splits) { ... }\<close>).

  \<^verbatim>\<open>m_sparseDepthBegin = std::max(log2(m_numPointsHint) / log2(m_factor) + 1,\<close>
  \<^verbatim>\<open>                              m_coldDepthBegin);\<close>
  \<^verbatim>\<open>m_sparseIndexBegin = ChunkInfo::calcLevelIndex(m_dimensions, m_sparseDepthBegin);\<close>

  Without a hint the two members keep their values; the advisory written to
  \<^verbatim>\<open>std::cout\<close> changes no field and is left out.
\<close>

definition loadSparse :: "Structure \<Rightarrow> error + (nat \<times> Id)" where
  "loadSparse s =
     (if m_numPointsHint s \<noteq> 0
      then bindE (log2 (m_numPointsHint s)) (\<lambda>a.
           bindE (log2 (m_factor s)) (\<lambda>b.
           bindE (sz_div a b) (\<lambda>q.
           let sparseDepthBegin = max (sz (q + 1)) (m_coldDepthBegin s) in
           bindE (calcLevelIndex (m_dimensions s) sparseDepthBegin) (\<lambda>sparseIndexBegin.
           Inr (sparseDepthBegin, sparseIndexBegin)))))
      else Inr (m_sparseDepthBegin s, m_sparseIndexBegin s))"

text \<open>
  The subset checks, in the order of the source. \<^verbatim>\<open>std::pow(4, m_nullDepthEnd) < splits\<close>
  compares doubles; the model compares the numbers.
\<close>

definition checkSubset :: "Structure \<Rightarrow> nat \<Rightarrow> error + unit" where
  "checkSubset s coldFirstSpan =
     (let splits = snd (m_subset s) in
      if splits \<noteq> 0 then
        if m_nullDepthEnd s = 0 \<or> 4 ^ m_nullDepthEnd s < splits then Inl InvalidNullDepthForSubset
        else if \<not> (splits = 4 \<or> splits = 16 \<or> splits = 64) then Inl InvalidSubsetSplit
        else if snd (m_subset s) \<le> fst (m_subset s) then Inl InvalidSubsetIdentifier
        else if hasCold s then
          bindE (sz_div coldFirstSpan (m_chunkPoints s)) (\<lambda>q.
          if q < splits \<or> q mod splits \<noteq> 0 then Inl InvalidChunkSizeForSubset else Inr ())
        else Inr ()
      else Inr ())"

definition loadIndexValues :: "Structure \<Rightarrow> error + Structure" where
  "loadIndexValues s =
     bindE (getSimple (pointsAtDepth (m_dimensions s) (m_coldDepthBegin s))) (\<lambda>coldFirstSpan.
     if m_baseDepthEnd s < 4 then Inl BaseDepthTooSmall
     else if m_chunkPoints s = 0 \<and> hasCold s then Inl PointsPerChunkNotSpecified
     else
     bindE (if hasCold s then isPerfectLogN (m_chunkPoints s) (m_dimensions s) else Inr 1) (\<lambda>perfect.
     if hasCold s \<and> perfect = 0 then Inl InvalidChunkSpecification
     else
     bindE (logN (m_chunkPoints s) (m_factor s)) (\<lambda>nominalChunkDepth.
     bindE (bindE (calcLevelIndex (m_dimensions s) nominalChunkDepth) getSimple) (\<lambda>nominalChunkIndex.
     bindE (calcLevelIndex (m_dimensions s) (m_nullDepthEnd s)) (\<lambda>nullIndexEnd.
     bindE (calcLevelIndex (m_dimensions s) (m_baseDepthEnd s)) (\<lambda>baseIndexEnd.
     bindE (if m_coldDepthEnd s \<noteq> 0 then calcLevelIndex (m_dimensions s) (m_coldDepthEnd s)
            else Inr 0) (\<lambda>coldIndexEnd.
     bindE (loadSparse s) (\<lambda>sparse.
     bindE (checkSubset s coldFirstSpan) (\<lambda>_.
     Inr (s\<lparr>m_nominalChunkDepth := nominalChunkDepth,
            m_nominalChunkIndex := nominalChunkIndex,
            m_nullIndexBegin := 0,
            m_nullIndexEnd := nullIndexEnd,
            m_baseIndexBegin := nullIndexEnd,
            m_baseIndexEnd := baseIndexEnd,
            m_coldIndexBegin := baseIndexEnd,
            m_coldIndexEnd := coldIndexEnd,
            m_sparseDepthBegin := fst sparse,
            m_sparseIndexBegin := snd sparse\<rparr>))))))))))"

text \<open>
  The initialiser lists. The fields that only \<open>loadIndexValues\<close> assigns start
  at 0 here.
\<close>

definition initialised ::
  "nat \<Rightarrow> nat \<Rightarrow> nat \<Rightarrow> nat \<Rightarrow> bool \<Rightarrow> nat \<Rightarrow> nat \<Rightarrow> nat \<Rightarrow> nat \<times> nat \<Rightarrow> Structure" where
  "initialised nullDepthEnd baseDepthEnd coldDepthEnd chunkPoints dynamicChunks dimensions
      factor numPointsHint subset' =
     \<lparr>m_nullDepthBegin = 0, m_nullDepthEnd = nullDepthEnd,
      m_baseDepthBegin = nullDepthEnd, m_baseDepthEnd = baseDepthEnd,
      m_coldDepthBegin = baseDepthEnd, m_coldDepthEnd = coldDepthEnd,
      m_sparseDepthBegin = 0, m_sparseIndexBegin = 0,
      m_chunkPoints = chunkPoints, m_dynamicChunks = dynamicChunks,
      m_dimensions = dimensions, m_factor = factor,
      m_numPointsHint = numPointsHint, m_subset = subset',
      m_nominalChunkDepth = 0, m_nominalChunkIndex = 0,
      m_nullIndexBegin = 0, m_nullIndexEnd = 0,
      m_baseIndexBegin = 0, m_baseIndexEnd = 0,
      m_coldIndexBegin = 0, m_coldIndexEnd = 0\<rparr>"

text \<open>
  \<^verbatim>\<open>Structure(nullDepth, baseDepth, coldDepth, chunkPoints, dimensions,\<close>
  \<^verbatim>\<open>          numPointsHint, dynamicChunks, subset)\<close>:
  \<^verbatim>\<open>m_baseDepthEnd(std::max(m_baseDepthBegin, baseDepth))\<close>,
  \<^verbatim>\<open>m_coldDepthEnd(std::max(m_coldDepthBegin, coldDepth))\<close>,
  \<^verbatim>\<open>m_factor(1ULL << m_dimensions)\<close>.
\<close>

definition Structure_cold ::
  "nat \<Rightarrow> nat \<Rightarrow> nat \<Rightarrow> nat \<Rightarrow> nat \<Rightarrow> nat \<Rightarrow> bool \<Rightarrow> nat \<times> nat \<Rightarrow> error + Structure" where
  "Structure_cold nullDepth baseDepth coldDepth chunkPoints dimensions numPointsHint
      dynamicChunks subset' =
     bindE (shl1 dimensions) (\<lambda>factor.
     loadIndexValues
       (initialised nullDepth (max nullDepth baseDepth)
          (max (max nullDepth baseDepth) coldDepth)
          chunkPoints dynamicChunks dimensions factor numPointsHint subset'))"

text \<open>The constructor without a cold depth: \<^verbatim>\<open>m_coldDepthEnd(0)\<close>.\<close>

definition Structure_base ::
  "nat \<Rightarrow> nat \<Rightarrow> nat \<Rightarrow> nat \<Rightarrow> nat \<Rightarrow> bool \<Rightarrow> nat \<times> nat \<Rightarrow> error + Structure" where
  "Structure_base nullDepth baseDepth chunkPoints dimensions numPointsHint
      dynamicChunks subset' =
     bindE (shl1 dimensions) (\<lambda>factor.
     loadIndexValues
       (initialised nullDepth (max nullDepth baseDepth) 0
          chunkPoints dynamicChunks dimensions factor numPointsHint subset'))"

text \<open>
  The configuration document: one field for each key that the constructor reads
  and \<open>toJson\<close> writes, \<^verbatim>\<open>"subset"\<close> being the array \<^verbatim>\<open>[id, splits]\<close>.
\<close>

record Json =
  j_nullDepth :: nat
  j_baseDepth :: nat
  j_coldDepth :: nat
  j_chunkPoints :: nat
  j_dimensions :: nat
  j_numPointsHint :: nat
  j_dynamicChunks :: bool
  j_subset :: "nat \<times> nat"

text \<open>
  \<^verbatim>\<open>Structure(const Json::Value& json)\<close>:
  \<^verbatim>\<open>m_nullDepthEnd(json["nullDepth"].asUInt64())\<close>,
  \<^verbatim>\<open>m_baseDepthEnd(json["baseDepth"].asUInt64())\<close>,
  \<^verbatim>\<open>m_coldDepthEnd(json["coldDepth"].asUInt64())\<close>.
\<close>

definition Structure_json :: "Json \<Rightarrow> error + Structure" where
  "Structure_json json =
     bindE (shl1 (j_dimensions json)) (\<lambda>factor.
     loadIndexValues
       (initialised (j_nullDepth json) (j_baseDepth json) (j_coldDepth json)
          (j_chunkPoints json) (j_dynamicChunks json) (j_dimensions json) factor
          (j_numPointsHint json) (j_subset json)))"

definition toJson :: "Structure \<Rightarrow> Json" where
  "toJson s =
     \<lparr>j_nullDepth = m_nullDepthEnd s, j_baseDepth = m_baseDepthEnd s,
      j_coldDepth = m_coldDepthEnd s, j_chunkPoints = m_chunkPoints s,
      j_dimensions = m_dimensions s, j_numPointsHint = m_numPointsHint s,
      j_dynamicChunks = m_dynamicChunks s, j_subset = m_subset s\<rparr>"

text \<open>\<^verbatim>\<open>return m_subset.second != 0;\<close>\<close>

definition isSubset :: "Structure \<Rightarrow> bool" where
  "isSubset s \<longleftrightarrow> snd (m_subset s) \<noteq> 0"

text \<open>\<^verbatim>\<open>void Structure::makeWhole() { m_subset = { 0, 0 }; }\<close> The one member
  function that is not \<^verbatim>\<open>const\<close>: it returns the Structure it leaves behind.\<close>

definition makeWhole :: "Structure \<Rightarrow> Structure" where
  "makeWhole s = s\<lparr>m_subset := (0, 0)\<rparr>"

section \<open>ChunkInfo: forward address translation\<close>

text \<open>
  The value that the constructor \<^verbatim>\<open>ChunkInfo(structure, index)\<close> builds. The
  reference to the Structure is the argument itself and is not repeated in the
  record; \<open>ci_chunkPoints\<close> is the member \<^verbatim>\<open>m_chunkPoints\<close> of \<^verbatim>\<open>ChunkInfo\<close>, renamed
  because the Structure has a member of the same name.
\<close>

record ChunkInfo =
  m_index :: Id
  m_chunkId :: Id
  m_depth :: nat
  m_chunkOffset :: nat
  ci_chunkPoints :: nat
  m_chunkNum :: nat

text \<open>The test of the constructor's \<^verbatim>\<open>if\<close>:
  \<^verbatim>\<open>!m_structure.dynamicChunks() || levelIndex <= sparseIndexBegin\<close>.\<close>

definition fixedRegime :: "Structure \<Rightarrow> Id \<Rightarrow> bool" where
  "fixedRegime structure levelIndex \<longleftrightarrow>
     \<not> m_dynamicChunks structure \<or> levelIndex \<le> m_sparseIndexBegin structure"

definition ChunkInfo :: "Structure \<Rightarrow> Id \<Rightarrow> error + ChunkInfo" where
  "ChunkInfo structure index =
     bindE (calcDepth (m_factor structure) index) (\<lambda>depth.
     bindE (calcLevelIndex (m_dimensions structure) depth) (\<lambda>levelIndex.
     let baseChunkPoints = m_chunkPoints structure;
         sparseIndexBegin = m_sparseIndexBegin structure;
         coldIndexBegin = m_coldIndexBegin structure
     in
     if fixedRegime structure levelIndex then
       bindE (id_sub index coldIndexBegin) (\<lambda>rel.
       bindE (divMod rel baseChunkPoints) (\<lambda>dm.
       bindE (getSimple (fst dm)) (\<lambda>chunkNum.
       bindE (getSimple (snd dm)) (\<lambda>chunkOffset.
       Inr \<lparr>m_index = index,
            m_chunkId = coldIndexBegin + sz (chunkNum * baseChunkPoints),
            m_depth = depth,
            m_chunkOffset = chunkOffset,
            ci_chunkPoints = baseChunkPoints,
            m_chunkNum = chunkNum\<rparr>))))
     else
       bindE (getSimple (pointsAtDepth (m_dimensions structure)
                (m_sparseDepthBegin structure))) (\<lambda>sparseFirstSpan.
       bindE (sz_div sparseFirstSpan baseChunkPoints) (\<lambda>chunksPerSparseDepth.
       let sparseDepthCount = sz_sub depth (m_sparseDepthBegin structure) in
       bindE (getSimple (baseChunkPoints *
                binaryPow (m_dimensions structure) sparseDepthCount)) (\<lambda>chunkPoints.
       bindE (id_sub sparseIndexBegin coldIndexBegin) (\<lambda>coldIndexSpan.
       bindE (id_div coldIndexSpan baseChunkPoints) (\<lambda>numColdChunks.
       let prevLevelsChunkCount = numColdChunks + sz (chunksPerSparseDepth * sparseDepthCount) in
       bindE (bindE (id_sub index levelIndex) getSimple) (\<lambda>levelOffset.
       bindE (sz_div levelOffset chunkPoints) (\<lambda>q.
       bindE (getSimple (prevLevelsChunkCount + q)) (\<lambda>chunkNum.
       bindE (sz_mod levelOffset chunkPoints) (\<lambda>chunkOffset.
       Inr \<lparr>m_index = index,
            m_chunkId = levelIndex + sz (q * chunkPoints),
            m_depth = depth,
            m_chunkOffset = chunkOffset,
            ci_chunkPoints = chunkPoints,
            m_chunkNum = chunkNum\<rparr>)))))))))))"

section \<open>Chunk counting and inverse enumeration\<close>

definition numChunksAtDepth :: "Structure \<Rightarrow> nat \<Rightarrow> error + nat" where
  "numChunksAtDepth s depth =
     (if \<not> hasSparse s \<or> \<not> m_dynamicChunks s \<or> depth \<le> m_sparseDepthBegin s then
        bindE (calcLevelIndex (m_dimensions s) (sz (depth + 1))) (\<lambda>hi.
        bindE (calcLevelIndex (m_dimensions s) depth) (\<lambda>lo.
        bindE (id_sub hi lo) (\<lambda>depthSpan.
        bindE (id_div depthSpan (m_chunkPoints s)) getSimple)))
      else
        bindE (id_div (pointsAtDepth (m_dimensions s) (m_sparseDepthBegin s)) (m_chunkPoints s))
          getSimple)"

text \<open>The node index that \<open>getInfoFromNum\<close> hands to the \<open>ChunkInfo\<close>
  constructor: \<^verbatim>\<open>Id chunkId(0);\<close> and the assignments under \<^verbatim>\<open>if (hasCold())\<close>.\<close>

definition chunkIdFromNum :: "Structure \<Rightarrow> nat \<Rightarrow> error + Id" where
  "chunkIdFromNum s chunkNum =
     (if hasCold s then
        if hasSparse s \<and> m_dynamicChunks s then
          bindE (calcLevelIndex (m_dimensions s) (sz (m_sparseDepthBegin s + 1))) (\<lambda>endFixed.
          bindE (id_sub endFixed (m_coldIndexBegin s)) (\<lambda>fixedSpan.
          bindE (id_div fixedSpan (m_chunkPoints s)) (\<lambda>fixedNum.
          if chunkNum < fixedNum then Inr (m_coldIndexBegin s + sz (chunkNum * m_chunkPoints s))
          else
            bindE (id_sub chunkNum fixedNum) (\<lambda>leftover.
            bindE (numChunksAtDepth s (m_sparseDepthBegin s)) (\<lambda>chunksPerSparseDepth.
            bindE (id_div leftover chunksPerSparseDepth) (\<lambda>q.
            bindE (getSimple (sz (m_sparseDepthBegin s + 1) + q)) (\<lambda>depth.
            bindE (bindE (id_mod leftover chunksPerSparseDepth) getSimple) (\<lambda>chunkNumInDepth.
            bindE (bindE (calcLevelIndex (m_dimensions s) depth) getSimple) (\<lambda>depthIndexBegin.
            bindE (id_div (pointsAtDepth (m_dimensions s) depth) chunksPerSparseDepth)
              (\<lambda>depthChunkSize.
            Inr (depthIndexBegin + chunkNumInDepth * depthChunkSize)))))))))))
        else Inr (m_coldIndexBegin s + sz (chunkNum * m_chunkPoints s))
      else Inr 0)"

text \<open>\<^verbatim>\<open>return ChunkInfo(*this, chunkId);\<close>\<close>

definition getInfoFromNum :: "Structure \<Rightarrow> nat \<Rightarrow> error + ChunkInfo" where
  "getInfoFromNum s chunkNum = bindE (chunkIdFromNum s chunkNum) (ChunkInfo s)"

section \<open>Subsets\<close>

text \<open>
  \<^verbatim>\<open>climber.hpp\<close> and the bounding box are not among the sources. The climber
  is a value of an arbitrary type \<open>'c\<close> made from the full box and the Structure;
  its four moves, the box it stands on and the numbering of \<^verbatim>\<open>Climber::Dir\<close>
  (what \<^verbatim>\<open>static_cast<Climber::Dir>\<close> makes of the two bits) are parameters.
\<close>

datatype Dir = nwd | ned | swd | sed | otherDir

record ('b, 'c) Climber =
  climberNew :: "'b \<Rightarrow> Structure \<Rightarrow> 'c"
  dirOf :: "nat \<Rightarrow> Dir"
  goNwd :: "'c \<Rightarrow> 'c"
  goNed :: "'c \<Rightarrow> 'c"
  goSwd :: "'c \<Rightarrow> 'c"
  goSed :: "'c \<Rightarrow> 'c"
  bbox :: "'c \<Rightarrow> 'b"

text \<open>One round of the loop: \<^verbatim>\<open>m_subset.first >> (i * 2) & 0x03\<close>, then the
  chain of comparisons, whose last branch takes every other direction.\<close>

definition climbStep :: "('b, 'c) Climber \<Rightarrow> nat \<Rightarrow> nat \<Rightarrow> 'c \<Rightarrow> 'c" where
  "climbStep ops first i climber =
     (let dir = dirOf ops ((first div 2 ^ sz (i * 2)) mod 4) in
      if dir = nwd then goNwd ops climber
      else if dir = ned then goNed ops climber
      else if dir = swd then goSwd ops climber
      else goSed ops climber)"

text \<open>\<^verbatim>\<open>for (std::size_t i(0); i < times; ++i)\<close>, with \<open>n\<close> rounds left.\<close>

fun climb :: "('b, 'c) Climber \<Rightarrow> nat \<Rightarrow> nat \<Rightarrow> nat \<Rightarrow> 'c \<Rightarrow> 'c" where
  "climb ops first i 0 climber = climber"
| "climb ops first i (Suc n) climber = climb ops first (Suc i) n (climbStep ops first i climber)"

definition subsetBBox :: "('b, 'c) Climber \<Rightarrow> Structure \<Rightarrow> 'b \<Rightarrow> error + 'b" where
  "subsetBBox ops s full =
     (let climber = climberNew ops full s in
      if is3d s then Inl CantSplitOctree
      else
      bindE (if snd (m_subset s) = 4 then Inr 1
             else if snd (m_subset s) = 16 then Inr 2
             else if snd (m_subset s) = 64 then Inr 3
             else Inl InvalidSubsetSplit) (\<lambda>times.
      if times \<noteq> 0 then Inr (bbox ops (climb ops (fst (m_subset s)) 0 times climber))
      else Inl InvalidMagnificationSubset))"

section \<open>Executor: the reprojection filter\<close>

text \<open>
  \<^verbatim>\<open>reprojection.hpp\<close> and PDAL are not among the sources. A \<^verbatim>\<open>Reprojection\<close> is
  the pair of strings that \<^verbatim>\<open>in()\<close> and \<^verbatim>\<open>out()\<close> return; a
  \<^verbatim>\<open>pdal::SpatialReference\<close> is its WKT string, empty when the string is. The
  stage factory is the list of the stages it has created so far, and a filter is
  the stage's driver with the two options set on it.
\<close>

record Reprojection =
  r_in :: string
  r_out :: string

record SpatialReference =
  getWKT :: string

record Filter =
  f_driver :: string
  f_in_srs :: string
  f_out_srs :: string

definition sr_empty :: "SpatialReference \<Rightarrow> bool" where
  "sr_empty found \<longleftrightarrow> getWKT found = []"

text \<open>
  \<^verbatim>\<open>if (found.empty()) return given;\<close>
  \<^verbatim>\<open>else return Reprojection(found.getWKT(), given.out());\<close>
\<close>

definition srsFoundOrDefault :: "SpatialReference \<Rightarrow> Reprojection \<Rightarrow> Reprojection" where
  "srsFoundOrDefault found given =
     (if sr_empty found then given else \<lparr>r_in = getWKT found, r_out = r_out given\<rparr>)"

text \<open>The result and the stage factory after the call.\<close>

definition createReprojectionFilter ::
  "Reprojection \<Rightarrow> string list \<Rightarrow> (error + Filter) \<times> string list" where
  "createReprojectionFilter reproj stages =
     (if r_in reproj = [] then (Inl NoDefaultSRS, stages)
      else (Inr \<lparr>f_driver = ''filters.reprojection'',
                 f_in_srs = r_in reproj, f_out_srs = r_out reproj\<rparr>,
            stages @ [''filters.reprojection'']))"

text \<open>The call that \<^verbatim>\<open>Executor::run\<close> and \<^verbatim>\<open>Executor::preview\<close> make when a
  reprojection is given:
  \<^verbatim>\<open>createReprojectionFilter(srsFoundOrDefault(<reader's SRS>, *reprojection), table)\<close>.\<close>

definition reprojectionFilterFor ::
  "SpatialReference \<Rightarrow> Reprojection \<Rightarrow> string list \<Rightarrow> (error + Filter) \<times> string list" where
  "reprojectionFilterFor found reprojection stages =
     createReprojectionFilter (srsFoundOrDefault found reprojection) stages"

section \<open>The level index as the spec words it\<close>

text \<open>Section 3 of the spec: \<open>levelIndex(depth) = (F^depth - 1) / (F - 1)\<close>, the
  count of the nodes at all depths strictly less than \<open>depth\<close>. The source's
  \<open>calcLevelIndex\<close> is compared with it below.\<close>

definition levelIndex_spec :: "nat \<Rightarrow> nat \<Rightarrow> nat" where
  "levelIndex_spec F depth = (F ^ depth - 1) div (F - 1)"

section \<open>Example configurations\<close>

text \<open>
  The Structures that the theorems below are tried on. Each is written as the
  initialiser list followed by the members that \<open>loadIndexValues\<close> assigns;
  that the constructors return them is proved below.

  A quadtree of four base levels without a cold tier
  (\<^verbatim>\<open>Structure(0, 4, 4, 2, 0, false, {0, 0})\<close>), the same with dynamic chunks
  requested, and the one built from a document whose null depth, 6, is above
  its base depth, 4.
\<close>

definition quadtree_base :: Structure where
  "quadtree_base =
     (initialised 0 4 0 4 False 2 4 0 (0, 0))
       \<lparr>m_nominalChunkDepth := 1, m_nominalChunkIndex := 1,
        m_baseIndexEnd := 85, m_coldIndexBegin := 85\<rparr>"

definition quadtree_dynamic :: Structure where
  "quadtree_dynamic = quadtree_base\<lparr>m_dynamicChunks := True\<rparr>"

definition unclamped_json :: Json where
  "unclamped_json =
     \<lparr>j_nullDepth = 6, j_baseDepth = 4, j_coldDepth = 0, j_chunkPoints = 4,
      j_dimensions = 2, j_numPointsHint = 0, j_dynamicChunks = False, j_subset = (0, 0)\<rparr>"

definition quadtree_unclamped :: Structure where
  "quadtree_unclamped =
     (initialised 6 4 0 4 False 2 4 0 (0, 0))
       \<lparr>m_nominalChunkDepth := 1, m_nominalChunkIndex := 1,
        m_nullIndexEnd := 1365, m_baseIndexBegin := 1365,
        m_baseIndexEnd := 85, m_coldIndexBegin := 85\<rparr>"

text \<open>Subset 0 of 4 of an octree (\<^verbatim>\<open>Structure(1, 4, 0, 8, 3, 0, false, {0, 4})\<close>) and
  subset 1 of 4 of a quadtree (\<^verbatim>\<open>Structure(1, 4, 0, 4, 2, 0, false, {1, 4})\<close>).\<close>

definition octree_subset :: Structure where
  "octree_subset =
     (initialised 1 4 4 8 False 3 8 0 (0, 4))
       \<lparr>m_nominalChunkDepth := 1, m_nominalChunkIndex := 1,
        m_nullIndexEnd := 1, m_baseIndexBegin := 1,
        m_baseIndexEnd := 585, m_coldIndexBegin := 585, m_coldIndexEnd := 585\<rparr>"

definition quadtree_subset :: Structure where
  "quadtree_subset =
     (initialised 1 4 4 4 False 2 4 0 (1, 4))
       \<lparr>m_nominalChunkDepth := 1, m_nominalChunkIndex := 1,
        m_nullIndexEnd := 1, m_baseIndexBegin := 1,
        m_baseIndexEnd := 85, m_coldIndexBegin := 85, m_coldIndexEnd := 85\<rparr>"

text \<open>
  An octree with a hint of a million points
  (\<^verbatim>\<open>Structure(0, 8, 0, 8, 3, 1000000, false, {0, 0})\<close>).
\<close>

definition octree_hinted :: Structure where
  "octree_hinted =
     (initialised 0 8 8 8 False 3 8 1000000 (0, 0))
       \<lparr>m_sparseDepthBegin := 8, m_sparseIndexBegin := 2396745,
        m_nominalChunkDepth := 1, m_nominalChunkIndex := 1,
        m_baseIndexEnd := 2396745, m_coldIndexBegin := 2396745, m_coldIndexEnd := 2396745\<rparr>"

text \<open>
  A quadtree with 16 points per chunk, dynamic chunks and a hint of a thousand
  points (\<^verbatim>\<open>Structure(0, 4, 4, 16, 2, 1000, true, {0, 0})\<close>): the sparse tier
  begins at depth 5, one level under the end of the base tier.
\<close>

definition quadtree_sparse :: Structure where
  "quadtree_sparse =
     (initialised 0 4 4 16 True 2 4 1000 (0, 0))
       \<lparr>m_sparseDepthBegin := 5, m_sparseIndexBegin := 341,
        m_nominalChunkDepth := 2, m_nominalChunkIndex := 5,
        m_baseIndexEnd := 85, m_coldIndexBegin := 85, m_coldIndexEnd := 85\<rparr>"

text \<open>A climber over the one-point type, to try \<open>subsetBBox\<close> on.\<close>

definition unit_climber :: "(unit, unit) Climber" where
  "unit_climber =
     \<lparr>climberNew = (\<lambda>full s. ()), dirOf = (\<lambda>n. nwd),
      goNwd = (\<lambda>c. c), goNed = (\<lambda>c. c), goSwd = (\<lambda>c. c), goSed = (\<lambda>c. c),
      bbox = (\<lambda>c. c)\<rparr>"

section \<open>Basic facts\<close>

lemma bindE_Inr [simp]: "bindE (Inr x) f = f x"
  by (simp add: bindE_def)

lemma bindE_Inl [simp]: "bindE (Inl e) f = Inl e"
  by (simp add: bindE_def)

lemma bindE_eq_Inr:
  "bindE m f = Inr y \<longleftrightarrow> (\<exists>x. m = Inr x \<and> f x = Inr y)"
  by (cases m) simp_all

lemma sz_small [simp]: "x < 2 ^ 64 \<Longrightarrow> sz x = x"
  by (simp add: sz_def)

lemma floor_log2_power [simp]: "floor_log2 (2 ^ k) = k"
proof (induction k)
  case 0
  show ?case by (simp add: floor_log2.simps)
next
  case (Suc k)
  have "floor_log2 (2 ^ Suc k) = Suc (floor_log2 (2 ^ Suc k div 2))"
    by (subst floor_log2.simps) simp
  with Suc show ?case by simp
qed

lemma floor_log2_bounds:
  "0 < n \<Longrightarrow> 2 ^ floor_log2 n \<le> n \<and> n < 2 ^ Suc (floor_log2 n)"
proof (induction n rule: floor_log2.induct)
  case (1 n)
  show ?case
  proof (cases "n < 2")
    case True
    with "1.prems" show ?thesis by (simp add: floor_log2.simps)
  next
    case False
    then have pos: "0 < n div 2" by simp
    from "1.IH" [OF False pos]
    have "2 ^ floor_log2 (n div 2) \<le> n div 2" and "n div 2 < 2 ^ Suc (floor_log2 (n div 2))"
      by simp_all
    moreover have "floor_log2 n = Suc (floor_log2 (n div 2))"
      using False by (subst floor_log2.simps) simp
    ultimately show ?thesis by simp linarith
  qed
qed

lemma floor_log2_unique:
  assumes "2 ^ k \<le> n" and "n < 2 ^ Suc k"
  shows "floor_log2 n = k"
proof -
  have pos: "0 < n" using assms(1) by (cases n) simp_all
  note b = floor_log2_bounds [OF pos]
  have "\<not> k < floor_log2 n"
  proof
    assume "k < floor_log2 n"
    then have "(2::nat) ^ Suc k \<le> 2 ^ floor_log2 n"
      by (intro power_increasing) simp_all
    with b assms(2) show False by linarith
  qed
  moreover have "\<not> floor_log2 n < k"
  proof
    assume "floor_log2 n < k"
    then have "(2::nat) ^ Suc (floor_log2 n) \<le> 2 ^ k"
      by (intro power_increasing) simp_all
    with b assms(1) show False by linarith
  qed
  ultimately show ?thesis by simp
qed

lemma floor_log2_less:
  assumes "0 < n" and "n < 2 ^ k"
  shows "floor_log2 n < k"
proof (rule ccontr)
  assume "\<not> floor_log2 n < k"
  then have "(2::nat) ^ k \<le> 2 ^ floor_log2 n" by (intro power_increasing) simp_all
  with floor_log2_bounds [OF assms(1)] assms(2) show False by linarith
qed

text \<open>Where the truncated double logarithm is the floor: at 0 it is undefined,
  at the powers of two and below \<open>2 ^ 48\<close> it is exact.\<close>

lemma log2_zero [simp]: "log2 0 = Inl UndefinedBehaviour"
  by (simp add: log2_def)

lemma log2_margin_less: "log2_margin k < 2 ^ k"
proof -
  consider "k < 48 \<or> 63 < k" | "48 \<le> k" and "k < 53" | "53 \<le> k" and "k \<le> 63"
    by linarith
  then show ?thesis
  proof cases
    case 1
    then show ?thesis by (simp add: log2_margin_def)
  next
    case 2
    then have "k = 48 \<or> k = 49 \<or> k = 50 \<or> k = 51 \<or> k = 52" by presburger
    then show ?thesis by (elim disjE) (simp_all add: log2_margin_def)
  next
    case 3
    then obtain j where k: "k = 53 + j" using le_iff_add by blast
    have "(45::nat) * 2 ^ j < 2 ^ 53 * 2 ^ j" by simp
    with 3 show ?thesis by (simp add: log2_margin_def k power_add)
  qed
qed

lemma log2_power [simp]: "log2 (2 ^ k) = Inr k"
  using log2_margin_less [of k] by (simp add: log2_def)

lemma log2_small:
  assumes "0 < v" and "v < 2 ^ 48"
  shows "log2 v = Inr (floor_log2 v)"
proof -
  have "floor_log2 v < 48" using assms by (rule floor_log2_less)
  then have "log2_margin (floor_log2 v) = 0" by (simp add: log2_margin_def)
  moreover have "v < 2 ^ (floor_log2 v + 1)" using floor_log2_bounds [OF assms(1)] by simp
  ultimately show ?thesis using assms(1) by (simp add: log2_def)
qed

text \<open>And where it is not: just under \<open>2 ^ 49\<close>, \<open>2 ^ 50\<close> and \<open>2 ^ 64\<close>.\<close>

lemma log2_rounded:
  "log2 (2 ^ 49 - 2) = Inr 48" "log2 (2 ^ 49 - 1) = Inr 49" "log2 (2 ^ 50 - 1) = Inr 50"
  "log2 (2 ^ 64 - 46081) = Inr 63" "log2 (2 ^ 64 - 46080) = Inr 64"
  by (simp_all add: log2_def log2_margin_def floor_log2_unique [of 48]
      floor_log2_unique [of 49] floor_log2_unique [of 63])

lemma geo_step: "\<exists>q. Suc G ^ d = q * G + 1"
proof (induction d)
  case 0
  show ?case by (rule exI [of _ 0]) simp
next
  case (Suc d)
  then obtain q where q: "Suc G ^ d = q * G + 1" by blast
  have "Suc G ^ Suc d = (Suc G * q + 1) * G + 1"
    using q by (simp add: algebra_simps)
  then show ?case by blast
qed

lemma levelIndex_spec_mult:
  assumes "2 \<le> F"
  shows "levelIndex_spec F d * (F - 1) + 1 = F ^ d"
proof -
  obtain G where G: "F = Suc G" and Gpos: "0 < G" using assms by (cases F) auto
  obtain q where q: "F ^ d = q * G + 1" using geo_step [of G d] G by auto
  then have "(F ^ d - 1) div (F - 1) = q" using G Gpos by simp
  with q G show ?thesis by (simp add: levelIndex_spec_def)
qed

lemma levelIndex_spec_Suc:
  assumes "2 \<le> F"
  shows "levelIndex_spec F (Suc d) = levelIndex_spec F d + F ^ d"
proof -
  have "levelIndex_spec F (Suc d) * (F - 1) + 1 = F * F ^ d"
    using levelIndex_spec_mult [OF assms, of "Suc d"] by simp
  also have "\<dots> = (F - 1) * F ^ d + F ^ d"
    using assms by (simp add: algebra_simps)
  also have "\<dots> = (F - 1) * F ^ d + (levelIndex_spec F d * (F - 1) + 1)"
    using levelIndex_spec_mult [OF assms, of d] by simp
  also have "\<dots> = (levelIndex_spec F d + F ^ d) * (F - 1) + 1"
    by (simp add: algebra_simps)
  finally have "levelIndex_spec F (Suc d) * (F - 1) = (levelIndex_spec F d + F ^ d) * (F - 1)"
    by simp
  then show ?thesis using assms by simp
qed

lemma binaryPow_small:
  "depth * dimensions < 2 ^ 64 \<Longrightarrow> binaryPow dimensions depth = (2 ^ dimensions) ^ depth"
  by (simp add: binaryPow_def power_mult [symmetric] mult.commute)

lemma calcLevelIndex_small:
  assumes "dimensions = 2 \<or> dimensions = 3" and "depth * dimensions < 2 ^ 64"
  shows "calcLevelIndex dimensions depth = Inr (levelIndex_spec (2 ^ dimensions) depth)"
  using assms
  by (auto simp: calcLevelIndex_def binaryPow_small id_sub_def shl1_def sz_sub_def sz_def id_div_def levelIndex_spec_def)

lemma floor_log2_div:
  assumes "0 < k" and "2 ^ (k * d) \<le> x" and "x < 2 ^ (k * Suc d)"
  shows "floor_log2 x div k = d"
proof -
  have pos: "0 < x" using assms(2) by (cases x) simp_all
  note b = floor_log2_bounds [OF pos]
  have lo: "k * d \<le> floor_log2 x"
  proof (rule ccontr)
    assume "\<not> k * d \<le> floor_log2 x"
    then have "(2::nat) ^ Suc (floor_log2 x) \<le> 2 ^ (k * d)"
      by (intro power_increasing) simp_all
    with b assms(2) show False by linarith
  qed
  have hi: "floor_log2 x < k * Suc d"
  proof (rule ccontr)
    assume "\<not> floor_log2 x < k * Suc d"
    then have "(2::nat) ^ (k * Suc d) \<le> 2 ^ floor_log2 x"
      by (intro power_increasing) simp_all
    with b assms(3) show False by linarith
  qed
  from lo hi assms(1) show ?thesis
    by (metis div_nat_eqI mult.commute)
qed

lemma calcDepth_level:
  assumes dims: "dimensions = 2 \<or> dimensions = 3"
  shows "calcDepth (2 ^ dimensions) (levelIndex_spec (2 ^ dimensions) d) = Inr d"
proof -
  let ?F = "(2::nat) ^ dimensions"
  have F2: "2 \<le> ?F" using dims by auto
  have Fm: "sz_sub ?F 1 = ?F - 1" using dims by (auto simp: sz_sub_def sz_def)
  have "levelIndex_spec ?F d * (?F - 1) + 1 = ?F ^ d"
    by (rule levelIndex_spec_mult [OF F2])
  also have "\<dots> = 2 ^ (dimensions * d)" by (rule power_mult [symmetric])
  finally have arg: "levelIndex_spec ?F d * (?F - 1) + 1 = 2 ^ (dimensions * d)" .
  have dpos: "0 < dimensions" using dims by auto
  show ?thesis
    unfolding calcDepth_def Fm arg using dpos by (simp add: sz_div_def)
qed

lemmas eval_simps =
  log2_small sz_def sz_sub_def sz_div_def sz_mod_def shl1_def
  id_sub_def id_div_def id_mod_def divMod_def getSimple_def
  binaryPow_def pointsAtDepth_def calcLevelIndex_def calcDepth_def logN_def isPerfectLogN_def


lemma loadIndexValues_cold_dimensions:
  assumes "hasCold s" and "m_dimensions s \<noteq> 4" and "m_dimensions s \<noteq> 8"
  shows "\<exists>e. loadIndexValues s = Inl e"
  using assms
  by (auto simp: loadIndexValues_def isPerfectLogN_def logN_def bindE_def split: sum.splits)

lemma bindE_InrE:
  assumes "bindE m f = Inr y"
  obtains x where "m = Inr x" and "f x = Inr y"
  using assms by (cases m) simp_all

lemma if_Inl_InrE:
  assumes "(if c then Inl e else m) = Inr y"
  obtains "\<not> c" and "m = Inr y"
  using assms by (simp split: if_splits)

text \<open>What a successful \<open>loadIndexValues\<close> has checked and assigned.\<close>

lemma loadIndexValues_Inr:
  assumes "loadIndexValues s = Inr s'"
  obtains ncd nci nie bie cie sparse where
    "s' = s\<lparr>m_nominalChunkDepth := ncd, m_nominalChunkIndex := nci,
                 m_nullIndexBegin := 0, m_nullIndexEnd := nie, m_baseIndexBegin := nie,
                 m_baseIndexEnd := bie, m_coldIndexBegin := bie, m_coldIndexEnd := cie,
                 m_sparseDepthBegin := fst sparse, m_sparseIndexBegin := snd sparse\<rparr>"
    and "4 \<le> m_baseDepthEnd s"
    and "logN (m_chunkPoints s) (m_factor s) = Inr ncd"
    and "hasCold s \<Longrightarrow> \<exists>p. isPerfectLogN (m_chunkPoints s) (m_dimensions s) = Inr p"
    and "calcLevelIndex (m_dimensions s) (m_baseDepthEnd s) = Inr bie"
    and "loadSparse s = Inr sparse"
  using assms unfolding loadIndexValues_def
  apply (elim bindE_InrE if_Inl_InrE)
  apply (simp split: if_splits)
     apply blast+
  done

lemma loadIndexValues_depths:
  assumes "loadIndexValues s = Inr s'"
  shows "m_nullDepthEnd s' = m_nullDepthEnd s \<and> m_baseDepthEnd s' = m_baseDepthEnd s
       \<and> m_coldDepthEnd s' = m_coldDepthEnd s"
  using assms by (elim loadIndexValues_Inr) simp

lemmas ctor_simps =
  Structure_cold_def Structure_base_def Structure_json_def initialised_def loadIndexValues_def
  loadSparse_def checkSubset_def hasCold_def hasSparse_def is3d_def

lemma floor_log2_4 [simp]: "floor_log2 4 = 2"
  by (rule floor_log2_unique) simp_all

lemma floor_log2_8 [simp]: "floor_log2 8 = 3"
  by (rule floor_log2_unique) simp_all

lemma quadtree_base_constructed:
  "Structure_base 0 4 4 2 0 False (0, 0) = Inr quadtree_base"
  by (simp add: ctor_simps eval_simps quadtree_base_def)

lemma quadtree_dynamic_constructed:
  "Structure_base 0 4 4 2 0 True (0, 0) = Inr quadtree_dynamic"
  by (simp add: ctor_simps eval_simps quadtree_dynamic_def quadtree_base_def)

lemma quadtree_unclamped_constructed:
  "Structure_json unclamped_json = Inr quadtree_unclamped"
  by (simp add: ctor_simps eval_simps quadtree_unclamped_def unclamped_json_def)

lemma octree_subset_constructed:
  "Structure_cold 1 4 0 8 3 0 False (0, 4) = Inr octree_subset"
  by (simp add: ctor_simps eval_simps octree_subset_def)

lemma quadtree_subset_constructed:
  "Structure_cold 1 4 0 4 2 0 False (1, 4) = Inr quadtree_subset"
  by (simp add: ctor_simps eval_simps quadtree_subset_def)


lemma floor_log2_1000 [simp]: "floor_log2 1000 = 9"
  by (rule floor_log2_unique) simp_all
lemma floor_log2_16 [simp]: "floor_log2 16 = 4"
  by (rule floor_log2_unique) simp_all

lemma quadtree_sparse_constructed:
  "Structure_cold 0 4 4 16 2 1000 True (0, 0) = Inr quadtree_sparse"
  by (simp add: ctor_simps eval_simps quadtree_sparse_def)

lemma sz_mod_InrE:
  assumes "sz_mod a b = Inr r"
  shows "r < b"
  using assms by (auto simp: sz_mod_def split: if_splits)

lemma divMod_Inr:
  assumes "divMod a b = Inr dm"
  shows "snd dm < b"
  using assms by (auto simp: divMod_def split: if_splits)

lemma getSimple_Inr: "getSimple v = Inr x \<Longrightarrow> x = v"
  by (auto simp: getSimple_def split: if_splits)

lemmas chunk_simps = ChunkInfo_def fixedRegime_def Let_def

lemma floor_log2_256 [simp]: "floor_log2 256 = 8"
  by (rule floor_log2_unique) simp_all

lemma ChunkInfo_quadtree_sparse_fixed:
  "ChunkInfo quadtree_sparse 100 =
     Inr \<lparr>m_index = 100, m_chunkId = 85, m_depth = 4, m_chunkOffset = 15,
          ci_chunkPoints = 16, m_chunkNum = 0\<rparr>"
  by (simp add: chunk_simps quadtree_sparse_def initialised_def eval_simps
      floor_log2_unique [of 8 301])

lemma ChunkInfo_quadtree_sparse_adaptive:
  "ChunkInfo quadtree_sparse 2000 =
     Inr \<lparr>m_index = 2000, m_chunkId = 1941, m_depth = 6, m_chunkOffset = 59,
          ci_chunkPoints = 64, m_chunkNum = 89\<rparr>"
  by (simp add: chunk_simps quadtree_sparse_def initialised_def eval_simps
      floor_log2_unique [of 12 6001])

text \<open>The sparse boundary that a hint below \<open>2 ^ 48\<close> gives:
  \<open>max (floor (log_F hint) + 1) coldDepthBegin\<close>, and its level index.\<close>

lemma loadSparse_hint:
  assumes dims: "m_dimensions s = 2 \<or> m_dimensions s = 3"
    and factor: "m_factor s = 2 ^ m_dimensions s"
    and hint: "m_factor s ^ k \<le> m_numPointsHint s" "m_numPointsHint s < m_factor s ^ Suc k"
    and exact: "m_numPointsHint s < 2 ^ 48"
    and small: "max (Suc k) (m_coldDepthBegin s) * m_dimensions s < 2 ^ 64"
  shows "loadSparse s =
           Inr (max (k + 1) (m_coldDepthBegin s),
                levelIndex_spec (m_factor s) (max (k + 1) (m_coldDepthBegin s)))"
proof -
  let ?d = "m_dimensions s"
  have dpos: "0 < ?d" using dims by auto
  have pos: "m_numPointsHint s \<noteq> 0"
    using hint(1) factor by (cases "m_numPointsHint s") simp_all
  have lo: "2 ^ (?d * k) \<le> m_numPointsHint s"
    using hint(1) by (simp add: factor power_mult)
  have hi: "m_numPointsHint s < 2 ^ (?d * Suc k)"
    using hint(2) unfolding factor power_mult [symmetric] .
  have q: "floor_log2 (m_numPointsHint s) div ?d = k"
    by (rule floor_log2_div [OF dpos lo hi])
  have lg: "log2 (m_numPointsHint s) = Inr (floor_log2 (m_numPointsHint s))"
    using pos exact by (intro log2_small) simp_all
  have k: "Suc k < 2 ^ 64"
  proof -
    have "Suc k \<le> max (Suc k) (m_coldDepthBegin s) * ?d" using dpos
      by (metis Suc_leI le_trans max.cobounded1 mult.right_neutral mult_le_mono2 One_nat_def)
    with small show ?thesis by linarith
  qed
  have lvl: "calcLevelIndex ?d (max (Suc k) (m_coldDepthBegin s)) =
      Inr (levelIndex_spec (2 ^ ?d) (max (Suc k) (m_coldDepthBegin s)))"
    by (rule calcLevelIndex_small [OF dims small])
  show ?thesis
    using pos dpos q k lvl
    by (simp add: loadSparse_def lg factor sz_div_def Let_def)
qed

lemma loadSparse_no_hint:
  "m_numPointsHint s = 0 \<Longrightarrow> loadSparse s = Inr (m_sparseDepthBegin s, m_sparseIndexBegin s)"
  by (simp add: loadSparse_def)

lemma floor_log2_million [simp]: "floor_log2 1000000 = 19"
  by (rule floor_log2_unique) simp_all

lemma octree_hinted_constructed:
  "Structure_cold 0 8 0 8 3 1000000 False (0, 0) = Inr octree_hinted"
  by (simp add: ctor_simps eval_simps octree_hinted_def)

lemma ChunkInfo_quadtree_base_85:
  "ChunkInfo quadtree_base 85 =
     Inr \<lparr>m_index = 85, m_chunkId = 85, m_depth = 4, m_chunkOffset = 0,
          ci_chunkPoints = 4, m_chunkNum = 0\<rparr>"
  by (simp add: chunk_simps quadtree_base_def initialised_def eval_simps)

text \<open>\<open>isPerfectLogN\<close> accepts every power of 4 and of 8 that a \<^verbatim>\<open>size_t\<close>
  holds.\<close>

lemma isPerfectLogN_power:
  assumes b: "b = 2 \<or> b = 3" and fit: "k * b < 64"
  shows "isPerfectLogN ((2 ^ b) ^ k) (2 ^ b) = Inr 1"
proof -
  have n: "((2::nat) ^ b \<noteq> 4 \<and> (2::nat) ^ b \<noteq> 8) = False" using b by auto
  have v: "((2::nat) ^ b) ^ k = 2 ^ (k * b)" by (simp add: power_mult mult.commute)
  have bpos: "0 < b" using b by auto
  show ?thesis
    unfolding isPerfectLogN_def logN_def n v
    using bpos fit by (simp add: sz_div_def shl1_def)
qed

lemma shl1_Inr: "shl1 n = Inr p \<Longrightarrow> n < 64 \<and> p = 2 ^ n"
  by (simp add: shl1_def split: if_splits)

text \<open>No constructor returns a Structure with a cold tier.\<close>

lemma logN_Inr: "logN val n = Inr l \<Longrightarrow> n = 4 \<or> n = 8"
  by (simp add: logN_def split: if_splits)

lemma loadIndexValues_no_cold:
  assumes "loadIndexValues s = Inr s'" and "m_factor s = 2 ^ m_dimensions s"
  shows "\<not> hasCold s'"
proof
  assume c': "hasCold s'"
  from assms(1) have dep: "m_baseDepthEnd s' = m_baseDepthEnd s" "m_coldDepthEnd s' = m_coldDepthEnd s"
    using loadIndexValues_depths by blast+
  with c' have c: "hasCold s" by (simp add: hasCold_def)
  from assms(1) obtain ncd where f: "logN (m_chunkPoints s) (m_factor s) = Inr ncd"
    and p: "\<exists>p. isPerfectLogN (m_chunkPoints s) (m_dimensions s) = Inr p"
    using c by (elim loadIndexValues_Inr) blast
  from p obtain l where "logN (m_chunkPoints s) (m_dimensions s) = Inr l"
    unfolding isPerfectLogN_def by (elim exE bindE_InrE)
  then have "m_dimensions s = 4 \<or> m_dimensions s = 8" by (rule logN_Inr)
  moreover from f have "m_factor s = 4 \<or> m_factor s = 8" by (rule logN_Inr)
  ultimately show False using assms(2) by auto
qed

lemma constructed_no_cold:
  "(Structure_cold nullDepth baseDepth coldDepth chunkPoints dimensions hint dyn sub = Inr s
      \<longrightarrow> \<not> hasCold s)
   \<and> (Structure_base nullDepth baseDepth chunkPoints dimensions hint dyn sub = Inr s
      \<longrightarrow> \<not> hasCold s)
   \<and> (Structure_json json = Inr s \<longrightarrow> \<not> hasCold s)"
proof -
  have "\<not> hasCold s"
    if "bindE (shl1 d) (\<lambda>factor. loadIndexValues (initialised a b c e f d factor g h)) = Inr s"
    for a b c d e f g h
  proof -
    from that obtain factor where sh: "shl1 d = Inr factor"
      and l: "loadIndexValues (initialised a b c e f d factor g h) = Inr s"
      by (elim bindE_InrE)
    from sh have "factor = 2 ^ d" by (auto dest: shl1_Inr)
    then have "m_factor (initialised a b c e f d factor g h)
        = 2 ^ m_dimensions (initialised a b c e f d factor g h)"
      by (simp add: initialised_def)
    from loadIndexValues_no_cold [OF l this] show ?thesis .
  qed
  then show ?thesis
    unfolding Structure_cold_def Structure_base_def Structure_json_def by blast
qed

section \<open>The claims\<close>

text \<open>
  C1 (level-index consistency). For \<open>dimensions\<close> 2 or 3, the level index of
  \<open>depth + 1\<close> minus the level index of \<open>depth\<close> is \<open>pointsAtDepth\<close> of \<open>depth\<close>,
  and \<open>calcDepth\<close> at the level index of \<open>depth\<close>, with the branching factor
  \<open>2 ^ dimensions\<close>, returns \<open>depth\<close>. The depth ranges over the values whose shift
  count \<open>(depth + 1) * dimensions\<close> is a \<^verbatim>\<open>size_t\<close>.
\<close>

theorem level_index_consistency:
  assumes "dimensions = 2 \<or> dimensions = 3" and "(depth + 1) * dimensions < 2 ^ 64"
  shows "bindE (calcLevelIndex dimensions (depth + 1)) (\<lambda>hi.
           bindE (calcLevelIndex dimensions depth) (\<lambda>lo. id_sub hi lo))
         = Inr (pointsAtDepth dimensions depth)
       \<and> bindE (calcLevelIndex dimensions depth) (calcDepth (2 ^ dimensions)) = Inr depth"
proof -
  let ?F = "(2::nat) ^ dimensions"
  have F2: "2 \<le> ?F" using assms(1) by auto
  have small: "depth * dimensions < 2 ^ 64" using assms(2) by simp
  have hi: "calcLevelIndex dimensions (Suc depth) = Inr (levelIndex_spec ?F (Suc depth))"
    using calcLevelIndex_small [OF assms(1), of "Suc depth"] assms(2) by simp
  have lo: "calcLevelIndex dimensions depth = Inr (levelIndex_spec ?F depth)"
    by (rule calcLevelIndex_small [OF assms(1) small])
  have step: "levelIndex_spec ?F (Suc depth) = levelIndex_spec ?F depth + ?F ^ depth"
    by (rule levelIndex_spec_Suc [OF F2])
  have pts: "pointsAtDepth dimensions depth = ?F ^ depth"
    by (simp add: pointsAtDepth_def binaryPow_small [OF small])
  have depth: "calcDepth ?F (levelIndex_spec ?F depth) = Inr depth"
    by (rule calcDepth_level [OF assms(1)])
  show ?thesis
    by (simp add: hi lo step pts depth id_sub_def)
qed

theorem level_index_consistency_witness:
  "((3::nat) = 2 \<or> (3::nat) = 3) \<and> (5 + 1) * (3::nat) < 2 ^ 64
   \<and> bindE (calcLevelIndex 3 (5 + 1)) (\<lambda>hi. bindE (calcLevelIndex 3 5) (\<lambda>lo. id_sub hi lo))
       = Inr (pointsAtDepth 3 5)
   \<and> bindE (calcLevelIndex 3 5) (calcDepth (2 ^ 3)) = Inr 5"
  using level_index_consistency [of 3 5] by simp


text \<open>
  C2, at the input where the code leaves it. The round trip of chunk numbers is
  claimed of the Structures with a cold tier. A construction that asks for one
  does not return: for a quadtree whose base tier ends at depth 4 and whose
  cold tier ends at depth 6, with 16 points per chunk, which \<open>isPerfectLogN\<close>
  accepts as a power of the factor 4, \<open>loadIndexValues\<close> hands \<open>isPerfectLogN\<close>
  the dimensions, 2, where the factor is meant, and \<open>logN\<close> rejects every base
  but 4 and 8. This holds of the explicit arguments and of the document alike,
  and no constructor returns a Structure with a cold tier
  (\<open>constructed_no_cold\<close>), so that \<open>getInfoFromNum\<close> has no chunk to return.
\<close>

theorem cold_tier_construction_fails:
  "isPerfectLogN 16 4 = Inr 1
   \<and> isPerfectLogN 16 2 = Inl (InvalidLogNArg 2)
   \<and> Structure_cold 0 4 6 16 2 1000 True (0, 0) = Inl (InvalidLogNArg 2)
   \<and> Structure_json \<lparr>j_nullDepth = 0, j_baseDepth = 4, j_coldDepth = 6, j_chunkPoints = 16,
        j_dimensions = 2, j_numPointsHint = 1000, j_dynamicChunks = True, j_subset = (0, 0)\<rparr>
       = Inl (InvalidLogNArg 2)"
  by (simp add: ctor_simps eval_simps)

text \<open>
  C3 (offset boundedness). Whenever the constructor \<open>ChunkInfo\<close> returns, in the
  fixed regime and in the adaptive one, the offset is below the chunk's
  capacity.
\<close>

theorem offset_bounded:
  assumes "ChunkInfo s index = Inr ci"
  shows "m_chunkOffset ci < ci_chunkPoints ci"
  using assms unfolding ChunkInfo_def Let_def
  apply (elim bindE_InrE)
  subgoal for depth levelIndex
    apply (cases "fixedRegime s levelIndex")
     apply (simp_all only: if_True if_False)
     apply (elim bindE_InrE)
     apply (auto dest!: divMod_Inr getSimple_Inr)[1]
    apply (elim bindE_InrE)
    apply (auto dest!: sz_mod_InrE)[1]
    done
  done

theorem offset_bounded_witness:
  "Structure_cold 0 4 4 16 2 1000 True (0, 0) = Inr quadtree_sparse
   \<and> ChunkInfo quadtree_sparse 100 =
     Inr \<lparr>m_index = 100, m_chunkId = 85, m_depth = 4, m_chunkOffset = 15,
          ci_chunkPoints = 16, m_chunkNum = 0\<rparr>
   \<and> m_chunkOffset \<lparr>m_index = 100, m_chunkId = 85, m_depth = 4, m_chunkOffset = 15,
          ci_chunkPoints = 16, m_chunkNum = 0\<rparr>
       < ci_chunkPoints \<lparr>m_index = 100, m_chunkId = 85, m_depth = 4, m_chunkOffset = 15,
          ci_chunkPoints = 16, m_chunkNum = 0\<rparr>
   \<and> ChunkInfo quadtree_sparse 2000 =
     Inr \<lparr>m_index = 2000, m_chunkId = 1941, m_depth = 6, m_chunkOffset = 59,
          ci_chunkPoints = 64, m_chunkNum = 89\<rparr>
   \<and> m_chunkOffset \<lparr>m_index = 2000, m_chunkId = 1941, m_depth = 6, m_chunkOffset = 59,
          ci_chunkPoints = 64, m_chunkNum = 89\<rparr>
       < ci_chunkPoints \<lparr>m_index = 2000, m_chunkId = 1941, m_depth = 6, m_chunkOffset = 59,
          ci_chunkPoints = 64, m_chunkNum = 89\<rparr>"
  using quadtree_sparse_constructed
    ChunkInfo_quadtree_sparse_fixed ChunkInfo_quadtree_sparse_adaptive
    offset_bounded [OF ChunkInfo_quadtree_sparse_fixed]
    offset_bounded [OF ChunkInfo_quadtree_sparse_adaptive]
  by (intro conjI)

text \<open>
  C4, at the input where the code leaves it. A quadtree built without a hint
  and with dynamic chunks requested has no sparse tier, but the forward lookup
  of node index 85, the first of depth 4, does not take the fixed regime: the
  constructor \<open>ChunkInfo\<close> tests the dynamic flag and the sparse index, which is
  0, and not \<open>hasSparse\<close>. The adaptive branch then subtracts the first cold
  index from 0.
\<close>

theorem no_hint_dynamic_adaptive:
  "Structure_base 0 4 4 2 0 True (0, 0) = Inr quadtree_dynamic
   \<and> \<not> hasSparse quadtree_dynamic
   \<and> calcDepth (m_factor quadtree_dynamic) 85 = Inr 4
   \<and> calcLevelIndex (m_dimensions quadtree_dynamic) 4 = Inr 85
   \<and> \<not> fixedRegime quadtree_dynamic 85
   \<and> ChunkInfo quadtree_dynamic 85 = Inl IdUnderflow"
  using quadtree_dynamic_constructed
  by (simp add: chunk_simps quadtree_dynamic_def quadtree_base_def initialised_def eval_simps
      hasSparse_def)

theorem no_hint_dynamic_adaptive_witness:
  "ChunkInfo quadtree_dynamic 85 \<noteq> ChunkInfo quadtree_base 85"
  using no_hint_dynamic_adaptive ChunkInfo_quadtree_base_85 by simp

text \<open>
  C5 (perfect-power validation), as the code has it: \<open>isPerfectLogN\<close> is true at
  \<open>(64, 4)\<close>, true at \<open>(64, 8)\<close>, since \<open>64 = 8 ^ 2\<close>, and false at \<open>(100, 4)\<close>.
\<close>

theorem perfect_power_validation:
  "isPerfectLogN 64 4 = Inr 1 \<and> isPerfectLogN 64 8 = Inr 1 \<and> isPerfectLogN 100 4 = Inr 0"
  by (simp add: eval_simps floor_log2_unique [of 6])

text \<open>C5 as stated fails at \<open>(64, 8)\<close>: the code answers 1, not 0.\<close>

theorem isPerfectLogN_64_8: "isPerfectLogN 64 8 = Inr 1 \<and> isPerfectLogN 64 8 \<noteq> Inr 0"
  by (simp add: eval_simps floor_log2_unique [of 6] floor_log2_unique [of 3])


text \<open>
  C6, as the code has it. \<open>getInfoFromNum\<close> has no check of its own for a
  Structure without a cold tier: the chunk id stays at its initial 0, whatever
  the sequence number, and the result is that of the forward lookup of node
  index 0.
\<close>

theorem getInfoFromNum_no_cold:
  "\<not> hasCold s \<Longrightarrow> getInfoFromNum s chunkNum = ChunkInfo s 0"
  by (simp add: getInfoFromNum_def chunkIdFromNum_def)

theorem getInfoFromNum_no_cold_witness:
  "\<not> hasCold quadtree_base \<and> getInfoFromNum quadtree_base 7 = ChunkInfo quadtree_base 0"
proof -
  have h: "\<not> hasCold quadtree_base"
    by (simp add: hasCold_def quadtree_base_def initialised_def)
  from h getInfoFromNum_no_cold [OF h, of 7] show ?thesis by simp
qed

text \<open>
  C6 as stated fails on the quadtree without a cold tier, at sequence number 7:
  no error of the source is raised. Node index 0 lies below the first cold index,
  85, so the difference that the forward lookup takes is negative, which is the
  underflow that the model gives the index type.
\<close>

theorem getInfoFromNum_no_cold_result:
  "Structure_base 0 4 4 2 0 False (0, 0) = Inr quadtree_base
   \<and> getInfoFromNum quadtree_base 7 = Inl IdUnderflow"
proof -
  have "ChunkInfo quadtree_base 0 = Inl IdUnderflow"
    by (simp add: ChunkInfo_def quadtree_base_def initialised_def eval_simps fixedRegime_def)
  then show ?thesis
    using quadtree_base_constructed
    by (simp add: getInfoFromNum_def chunkIdFromNum_def hasCold_def quadtree_base_def
        initialised_def)
qed

text \<open>
  C7, as the code has it. The two constructors with explicit arguments raise the
  base depth to the null depth, and the first one raises the cold depth to the
  base depth; the second sets the cold depth to 0. The constructor from a
  document takes the three depths as they are written.
\<close>

theorem explicit_constructors_clamp:
  "(Structure_cold nullDepth baseDepth coldDepth chunkPoints dimensions hint dyn sub = Inr s \<longrightarrow>
      m_nullDepthEnd s = nullDepth \<and> m_baseDepthEnd s = max nullDepth baseDepth
      \<and> m_coldDepthEnd s = max (max nullDepth baseDepth) coldDepth
      \<and> m_nullDepthEnd s \<le> m_baseDepthEnd s \<and> m_baseDepthEnd s \<le> m_coldDepthEnd s)
   \<and> (Structure_base nullDepth' baseDepth' chunkPoints' dimensions' hint' dyn' sub' = Inr t \<longrightarrow>
      m_nullDepthEnd t = nullDepth' \<and> m_baseDepthEnd t = max nullDepth' baseDepth'
      \<and> m_coldDepthEnd t = 0 \<and> m_nullDepthEnd t \<le> m_baseDepthEnd t)
   \<and> (Structure_json json = Inr u \<longrightarrow>
      m_nullDepthEnd u = j_nullDepth json \<and> m_baseDepthEnd u = j_baseDepth json
      \<and> m_coldDepthEnd u = j_coldDepth json)"
  by (auto simp: Structure_cold_def Structure_base_def Structure_json_def bindE_eq_Inr
      initialised_def dest!: loadIndexValues_depths)

theorem explicit_constructors_clamp_witness:
  "Structure_cold 1 4 0 4 2 0 False (1, 4) = Inr quadtree_subset
   \<and> m_nullDepthEnd quadtree_subset \<le> m_baseDepthEnd quadtree_subset
   \<and> m_baseDepthEnd quadtree_subset \<le> m_coldDepthEnd quadtree_subset
   \<and> Structure_base 0 4 4 2 0 False (0, 0) = Inr quadtree_base
   \<and> m_nullDepthEnd quadtree_base \<le> m_baseDepthEnd quadtree_base
   \<and> Structure_json unclamped_json = Inr quadtree_unclamped
   \<and> m_baseDepthEnd quadtree_unclamped = j_baseDepth unclamped_json"
  using explicit_constructors_clamp [of 1 4 0 4 2 0 False "(1, 4)" quadtree_subset
      0 4 4 2 0 False "(0, 0)" quadtree_base unclamped_json quadtree_unclamped]
    quadtree_subset_constructed quadtree_base_constructed quadtree_unclamped_constructed
  by simp

text \<open>C7 as stated fails for the document with null depth 6 and base depth 4:
  the construction succeeds and the base tier ends below the null tier.\<close>

theorem json_constructor_unclamped:
  "Structure_json unclamped_json = Inr quadtree_unclamped
   \<and> m_baseDepthEnd quadtree_unclamped < m_nullDepthEnd quadtree_unclamped"
  using quadtree_unclamped_constructed
  by (simp add: quadtree_unclamped_def initialised_def)

text \<open>
  C8, as the code has it. The rejection of a subset of an octree is that of
  \<open>subsetBBox\<close>: on every three-dimensional Structure it throws
  "Can't currently split octree", before it looks at the subset.
\<close>

theorem subsetBBox_octree:
  "is3d s \<Longrightarrow> subsetBBox ops s full = Inl CantSplitOctree"
  by (simp add: subsetBBox_def)

theorem subsetBBox_octree_witness:
  "is3d octree_subset \<and> subsetBBox unit_climber octree_subset () = Inl CantSplitOctree"
proof -
  have h: "is3d octree_subset"
    by (simp add: is3d_def octree_subset_def initialised_def)
  from h subsetBBox_octree [OF h, of unit_climber "()"] show ?thesis by simp
qed

text \<open>C8 as stated fails for subset 0 of 4 of an octree: the construction
  succeeds, and the Structure it returns is three-dimensional and a subset.\<close>

theorem octree_subset_accepted:
  "Structure_cold 1 4 0 8 3 0 False (0, 4) = Inr octree_subset
   \<and> is3d octree_subset \<and> isSubset octree_subset"
  using octree_subset_constructed
  by (simp add: octree_subset_def initialised_def is3d_def isSubset_def)

text \<open>
  C9, as the code has it. \<open>makeWhole\<close> is the one member function that changes a
  constructed Structure: it sets the subset to \<open>(0, 0)\<close> and leaves every other
  field as it was, so putting the old subset back gives the old Structure, and
  the addressing queries, which never read the subset, answer as before. Every
  other member function is \<^verbatim>\<open>const\<close>, and here a function of the Structure and
  its arguments.
\<close>

theorem makeWhole_frame:
  "m_subset (makeWhole s) = (0, 0)
   \<and> (makeWhole s)\<lparr>m_subset := m_subset s\<rparr> = s
   \<and> ChunkInfo (makeWhole s) index = ChunkInfo s index
   \<and> numChunksAtDepth (makeWhole s) depth = numChunksAtDepth s depth
   \<and> getInfoFromNum (makeWhole s) chunkNum = getInfoFromNum s chunkNum"
proof -
  have ci: "ChunkInfo (makeWhole s) = ChunkInfo s"
    by (rule ext) (simp add: ChunkInfo_def makeWhole_def fixedRegime_def cong: if_cong)
  have nc: "numChunksAtDepth (makeWhole s) = numChunksAtDepth s"
    by (rule ext) (simp add: numChunksAtDepth_def makeWhole_def hasSparse_def cong: if_cong)
  have cid: "chunkIdFromNum (makeWhole s) n = chunkIdFromNum s n" for n
    unfolding chunkIdFromNum_def nc
    by (simp add: makeWhole_def hasSparse_def hasCold_def cong: if_cong)
  have gi: "getInfoFromNum (makeWhole s) n = getInfoFromNum s n" for n
    unfolding getInfoFromNum_def cid ci ..
  show ?thesis using gi by (simp add: ci nc) (simp add: makeWhole_def)
qed

theorem makeWhole_frame_witness:
  "m_subset (makeWhole quadtree_subset) = (0, 0)
   \<and> (makeWhole quadtree_subset)\<lparr>m_subset := m_subset quadtree_subset\<rparr> = quadtree_subset
   \<and> ChunkInfo (makeWhole quadtree_subset) 100 = ChunkInfo quadtree_subset 100
   \<and> numChunksAtDepth (makeWhole quadtree_subset) 4 = numChunksAtDepth quadtree_subset 4
   \<and> getInfoFromNum (makeWhole quadtree_subset) 3 = getInfoFromNum quadtree_subset 3"
  by (rule makeWhole_frame)

text \<open>C9 as stated fails on subset 1 of 4 of a quadtree: \<open>makeWhole\<close> changes the
  constructed Structure.\<close>

theorem makeWhole_changes_subset:
  "Structure_cold 1 4 0 4 2 0 False (1, 4) = Inr quadtree_subset
   \<and> makeWhole quadtree_subset \<noteq> quadtree_subset"
  using quadtree_subset_constructed
  by (simp add: makeWhole_def quadtree_subset_def initialised_def)

text \<open>
  C10. With an empty input SRS, \<open>createReprojectionFilter\<close> throws "No default SRS
  supplied, and none inferred" and the stage factory has created nothing; and
  when the source's spatial reference is not empty, its WKT takes the place of
  the configured input SRS in the reprojection that the filter is built from.
\<close>

theorem reprojection_filter:
  "(r_in reproj = [] \<longrightarrow> createReprojectionFilter reproj stages = (Inl NoDefaultSRS, stages))
   \<and> (\<not> sr_empty found \<longrightarrow>
        srsFoundOrDefault found given = \<lparr>r_in = getWKT found, r_out = r_out given\<rparr>
        \<and> reprojectionFilterFor found given stages =
            (Inr \<lparr>f_driver = ''filters.reprojection'', f_in_srs = getWKT found,
                  f_out_srs = r_out given\<rparr>,
             stages @ [''filters.reprojection'']))"
  by (simp add: createReprojectionFilter_def srsFoundOrDefault_def reprojectionFilterFor_def
      sr_empty_def)

theorem reprojection_filter_witness:
  "r_in \<lparr>r_in = [], r_out = ''EPSG:3857''\<rparr> = []
   \<and> createReprojectionFilter \<lparr>r_in = [], r_out = ''EPSG:3857''\<rparr> [] = (Inl NoDefaultSRS, [])
   \<and> \<not> sr_empty \<lparr>getWKT = ''EPSG:26915''\<rparr>
   \<and> reprojectionFilterFor \<lparr>getWKT = ''EPSG:26915''\<rparr> \<lparr>r_in = [], r_out = ''EPSG:3857''\<rparr> [] =
        (Inr \<lparr>f_driver = ''filters.reprojection'', f_in_srs = ''EPSG:26915'',
              f_out_srs = ''EPSG:3857''\<rparr>,
         [''filters.reprojection''])"
  using reprojection_filter [of "\<lparr>r_in = [], r_out = ''EPSG:3857''\<rparr>" "[]"
      "\<lparr>getWKT = ''EPSG:26915''\<rparr>" "\<lparr>r_in = [], r_out = ''EPSG:3857''\<rparr>"]
  by (simp add: sr_empty_def)

end
